theory Spec2Isabelle
  imports Complex_Main
begin

section \<open>Euler angles (euler.go of gravestench/mathlib)\<close>

text \<open>
  The file euler.go holds a container of three angles and a rotation order, a family of
  setters that all end in \<^verbatim>\<open>Set\<close>, and the decomposition of a rotation matrix into
  the three angles.

  Conventions of the embedding:
  \<^item> A \<^verbatim>\<open>float64\<close> is NaN, an infinity, the negative zero, or a real number (the real 0
    is the positive zero). Comparisons with NaN are false and the zeros keep their sign,
    as in Go. Rounding is not modelled: every real number is a value, and the functions of
    package \<^verbatim>\<open>math\<close> return the exact real result.
  \<^item> Go's \<^verbatim>\<open>int\<close> is read as a mathematical integer: the only arithmetic done on an
    order is the conversion to \<^verbatim>\<open>float64\<close> and back of a value clamped to 0..5, so no
    overflow can happen.
  \<^item> A method with receiver \<^verbatim>\<open>e *Euler\<close> takes the value of the container and the
    state of the world outside it, and gives back an outcome: the container after the call,
    the world after the call, and what the call returned (the container that the returned
    pointer designates, or the panic that ended the call). The receiver and the pointers
    passed as arguments are taken to be non-nil.
  \<^item> The callback \<^verbatim>\<open>func(*Euler)\<close> is an observer: it reads the four data fields of the
    container it is handed and changes the world outside the container. A callback that
    writes into the container, or that never returns, is outside the model. A nil
    function value is \<open>None\<close>; calling it panics.
\<close>

subsection \<open>Scalars\<close>

datatype float64 = NaN | NegInf | NegZero | Finite real | PosInf

text \<open>The real number a finite value stands for; both zeros stand for 0.\<close>

fun real_of_float64 :: "float64 \<Rightarrow> real" where
  "real_of_float64 (Finite r) = r"
| "real_of_float64 _ = 0"

text \<open>The comparison \<^verbatim>\<open>f == 0\<close>: true of both zeros.\<close>

definition is_zero :: "float64 \<Rightarrow> bool" where
  "is_zero f = (f = NegZero \<or> f = Finite 0)"

definition is_inf :: "float64 \<Rightarrow> bool" where
  "is_inf f = (f = NegInf \<or> f = PosInf)"

text \<open>The operator \<^verbatim>\<open>-f\<close>: the sign is flipped, also that of a zero.\<close>

fun float64_neg :: "float64 \<Rightarrow> float64" where
  "float64_neg NaN = NaN"
| "float64_neg NegInf = PosInf"
| "float64_neg PosInf = NegInf"
| "float64_neg NegZero = Finite 0"
| "float64_neg (Finite r) = (if r = 0 then NegZero else Finite (- r))"

text \<open>The operators \<^verbatim>\<open>a < b\<close> and \<^verbatim>\<open>a <= b\<close>: false as soon as an operand is NaN.\<close>

fun float64_lt :: "float64 \<Rightarrow> float64 \<Rightarrow> bool" where
  "float64_lt NaN _ = False"
| "float64_lt _ NaN = False"
| "float64_lt PosInf _ = False"
| "float64_lt _ NegInf = False"
| "float64_lt NegInf _ = True"
| "float64_lt _ PosInf = True"
| "float64_lt a b = (real_of_float64 a < real_of_float64 b)"

fun float64_le :: "float64 \<Rightarrow> float64 \<Rightarrow> bool" where
  "float64_le NaN _ = False"
| "float64_le _ NaN = False"
| "float64_le NegInf _ = True"
| "float64_le _ PosInf = True"
| "float64_le PosInf _ = False"
| "float64_le _ NegInf = False"
| "float64_le a b = (real_of_float64 a \<le> real_of_float64 b)"

text \<open>The conversion \<^verbatim>\<open>float64(i)\<close> of an integer.\<close>

definition float64_of_int :: "int \<Rightarrow> float64" where
  "float64_of_int i = Finite (of_int i)"

text \<open>
  The conversion \<^verbatim>\<open>int(f)\<close> of a float: the fraction is discarded (truncation towards
  zero). For NaN and the infinities Go leaves the result to the implementation; euler.go
  never converts one of them (the value converted lies between 0 and 5), and 0 stands for
  the result here.
\<close>

fun int_of_float64 :: "float64 \<Rightarrow> int" where
  "int_of_float64 (Finite r) = (if 0 \<le> r then floor r else ceiling r)"
| "int_of_float64 _ = 0"

text \<open>
  The functions of Go's package \<^verbatim>\<open>math\<close>, with the special cases their documentation
  lists.
\<close>

fun math_Signbit :: "float64 \<Rightarrow> bool" where
  "math_Signbit NegInf = True"
| "math_Signbit NegZero = True"
| "math_Signbit (Finite r) = (r < 0)"
| "math_Signbit _ = False"

definition math_Copysign :: "float64 \<Rightarrow> float64 \<Rightarrow> float64" where
  "math_Copysign f sign = (if math_Signbit f = math_Signbit sign then f else float64_neg f)"

fun math_Abs :: "float64 \<Rightarrow> float64" where
  "math_Abs NaN = NaN"
| "math_Abs NegInf = PosInf"
| "math_Abs PosInf = PosInf"
| "math_Abs NegZero = Finite 0"
| "math_Abs (Finite r) = Finite \<bar>r\<bar>"

text \<open>\<^verbatim>\<open>Asin(x)\<close> is NaN for \<open>x < -1\<close> or \<open>x > 1\<close>, and \<^verbatim>\<open>Asin\<close> of a zero is that zero.\<close>

fun math_Asin :: "float64 \<Rightarrow> float64" where
  "math_Asin NegZero = NegZero"
| "math_Asin (Finite r) = (if r < - 1 \<or> 1 < r then NaN else Finite (arcsin r))"
| "math_Asin _ = NaN"

text \<open>
  \<^verbatim>\<open>Atan2(y, x)\<close>, case by case as the library decides it: NaN first, then \<open>y\<close> zero,
  \<open>x\<close> zero, \<open>x\<close> infinite, \<open>y\<close> infinite, and last the quadrant of \<open>atan(y / x)\<close>.
\<close>

definition math_Atan2 :: "float64 \<Rightarrow> float64 \<Rightarrow> float64" where
  "math_Atan2 y x =
     (if x = NaN \<or> y = NaN then NaN
      else if is_zero y then
        (if float64_le (Finite 0) x \<and> \<not> math_Signbit x then math_Copysign (Finite 0) y
         else math_Copysign (Finite pi) y)
      else if is_zero x then math_Copysign (Finite (pi / 2)) y
      else if x = PosInf then
        (if is_inf y then math_Copysign (Finite (pi / 4)) y else math_Copysign (Finite 0) y)
      else if x = NegInf then
        (if is_inf y then math_Copysign (Finite (3 * pi / 4)) y else math_Copysign (Finite pi) y)
      else if is_inf y then math_Copysign (Finite (pi / 2)) y
      else
        (let q = arctan (real_of_float64 y / real_of_float64 x)
         in if real_of_float64 x < 0 then (if q \<le> 0 then Finite (q + pi) else Finite (q - pi))
            else Finite q))"

text \<open>
  \<^verbatim>\<open>Max\<close> and \<^verbatim>\<open>Min\<close>: an infinity of the right sign wins, then NaN, then of two zeros
  the positive one is the larger.
\<close>

definition math_Max :: "float64 \<Rightarrow> float64 \<Rightarrow> float64" where
  "math_Max x y =
     (if x = PosInf \<or> y = PosInf then PosInf
      else if x = NaN \<or> y = NaN then NaN
      else if is_zero x \<and> is_zero y then (if math_Signbit x then y else x)
      else if float64_lt y x then x else y)"

definition math_Min :: "float64 \<Rightarrow> float64 \<Rightarrow> float64" where
  "math_Min x y =
     (if x = NegInf \<or> y = NegInf then NegInf
      else if x = NaN \<or> y = NaN then NaN
      else if is_zero x \<and> is_zero y then (if math_Signbit x then x else y)
      else if float64_lt x y then x else y)"

text \<open>
  Modelled from the spec: the helper \<^verbatim>\<open>Clamp(v, min, max float64) float64\<close> is called by
  euler.go and defined in another file of the package. Section 4.4 of the specification:
  it returns \<open>v\<close> if \<open>lo \<le> v \<le> hi\<close>, else the nearest bound, and on NaN it does whatever
  the underlying min and max primitives define. So it is the maximum of \<open>lo\<close> and the
  minimum of \<open>hi\<close> and \<open>v\<close>; lemma \<open>Clamp_finite\<close> below gives the first sentence back.
\<close>

definition Clamp :: "float64 \<Rightarrow> float64 \<Rightarrow> float64 \<Rightarrow> float64" where
  "Clamp v lo hi = math_Max lo (math_Min hi v)"

subsection \<open>The orders\<close>

definition EulerOrderXYZ :: int where "EulerOrderXYZ = 0"
definition EulerOrderYXZ :: int where "EulerOrderYXZ = 1"
definition EulerOrderZXY :: int where "EulerOrderZXY = 2"
definition EulerOrderZYX :: int where "EulerOrderZYX = 3"
definition EulerOrderYZX :: int where "EulerOrderYZX = 4"
definition EulerOrderXZY :: int where "EulerOrderXZY = 5"
definition numEulerOrders :: int where "numEulerOrders = 6"

definition EulerOrderDefault :: int where
  "EulerOrderDefault = EulerOrderXYZ"

subsection \<open>The container\<close>

text \<open>What a callback can read of the container it is handed: X, Y, Z and Order.\<close>

type_synonym 'w callback = "float64 \<times> float64 \<times> float64 \<times> int \<Rightarrow> 'w \<Rightarrow> 'w"

record 'w Euler =
  X :: float64
  Y :: float64
  Z :: float64
  Order :: int
  OnChangeCallback :: "'w callback option"

definition view :: "'w Euler \<Rightarrow> float64 \<times> float64 \<times> float64 \<times> int" where
  "view e = (X e, Y e, Z e, Order e)"

datatype panic = NilFuncCall

record 'w outcome =
  container :: "'w Euler"
  world :: 'w
  returned :: "panic + 'w Euler"

definition eulerNoop :: "'w callback" where
  "eulerNoop _ w = w"

definition NewEuler :: "float64 \<Rightarrow> float64 \<Rightarrow> float64 \<Rightarrow> int \<Rightarrow> 'w Euler" where
  "NewEuler x y z order =
     \<lparr>X = x, Y = y, Z = z, Order = order, OnChangeCallback = Some eulerNoop\<rparr>"

subsection \<open>Accessors\<close>

text \<open>
  An accessor gives the values it returns, the container after the call and the world
  after the call.
\<close>

definition XY :: "'w Euler \<Rightarrow> 'w \<Rightarrow> (float64 \<times> float64) \<times> 'w Euler \<times> 'w" where
  "XY e w = ((X e, Y e), e, w)"

definition XYZ :: "'w Euler \<Rightarrow> 'w \<Rightarrow> (float64 \<times> float64 \<times> float64) \<times> 'w Euler \<times> 'w" where
  "XYZ e w = ((X e, Y e, Z e), e, w)"

subsection \<open>Setters\<close>

text \<open>
  \<^verbatim>\<open>Set\<close>: the order is clamped, the four fields are assigned, then the callback is
  called on the container. With a nil callback the call panics there, after the assignment.
\<close>

definition Set :: "'w Euler \<Rightarrow> float64 \<Rightarrow> float64 \<Rightarrow> float64 \<Rightarrow> int \<Rightarrow> 'w \<Rightarrow> 'w outcome" where
  "Set e x y z order w =
     (let order' = int_of_float64
            (Clamp (float64_of_int order) (Finite 0) (float64_of_int (numEulerOrders - 1)));
          e' = e\<lparr>X := x, Y := y, Z := z, Order := order'\<rparr>
      in case OnChangeCallback e' of
           None \<Rightarrow> \<lparr>container = e', world = w, returned = Inl NilFuncCall\<rparr>
         | Some cb \<Rightarrow> \<lparr>container = e', world = cb (view e') w, returned = Inr e'\<rparr>)"

definition SetX :: "'w Euler \<Rightarrow> float64 \<Rightarrow> 'w \<Rightarrow> 'w outcome" where
  "SetX e v w = Set e v (Y e) (Z e) (Order e) w"

definition SetY :: "'w Euler \<Rightarrow> float64 \<Rightarrow> 'w \<Rightarrow> 'w outcome" where
  "SetY e v w = Set e (X e) v (Z e) (Order e) w"

definition SetZ :: "'w Euler \<Rightarrow> float64 \<Rightarrow> 'w \<Rightarrow> 'w outcome" where
  "SetZ e v w = Set e (X e) (Y e) v (Order e) w"

definition SetOrder :: "'w Euler \<Rightarrow> int \<Rightarrow> 'w \<Rightarrow> 'w outcome" where
  "SetOrder e v w = Set e (X e) (Y e) (Z e) v w"

definition Copy :: "'w Euler \<Rightarrow> 'w Euler \<Rightarrow> 'w \<Rightarrow> 'w outcome" where
  "Copy e other w = Set e (X other) (Y other) (Z other) (Order other) w"

subsection \<open>Decomposition of a rotation matrix\<close>

text \<open>
  Modelled from the spec: the type \<^verbatim>\<open>Matrix4\<close> is declared in another file of the package.
  Section 6 of the specification: its storage is a flat array of 16 numbers. The array is
  read by index; the indices 0 to 15 are the ones that exist.
\<close>

record Matrix4 =
  Values :: "nat \<Rightarrow> float64"

text \<open>
  Lines 100 to 169 of \<^verbatim>\<open>SetFromRotationMatrix\<close>: the nine entries are read, the three
  angles start at the positive zero, and the \<^verbatim>\<open>switch\<close> assigns them. The first argument is the value
  the \<^verbatim>\<open>switch\<close> inspects. The cases are tried in the order of the source; the case
  \<^verbatim>\<open>EulerOrderXYZ\<close> falls through to \<^verbatim>\<open>default\<close>, so both are the last branch here. The
  result is \<open>(x, y, z)\<close>.
\<close>

definition rotationAngles :: "int \<Rightarrow> (nat \<Rightarrow> float64) \<Rightarrow> float64 \<times> float64 \<times> float64" where
  "rotationAngles k m =
     (let m11 = m 0; m12 = m 4; m13 = m 8;
          m21 = m 1; m22 = m 5; m23 = m 9;
          m31 = m 2; m32 = m 6; m33 = m 10;
          epsilon = Finite 0.99999
      in
      if k = EulerOrderYXZ then
        (let x = math_Asin (float64_neg (Clamp m23 (Finite (- 1)) (Finite 1))) in
         if float64_lt (math_Abs m23) epsilon
         then (x, math_Atan2 m13 m33, math_Atan2 m21 m22)
         else (x, math_Atan2 (float64_neg m31) m11, Finite 0))
      else if k = EulerOrderZXY then
        (let x = math_Asin (Clamp m32 (Finite (- 1)) (Finite 1)) in
         if float64_lt (math_Abs m32) epsilon
         then (x, math_Atan2 (float64_neg m31) m33, math_Atan2 (float64_neg m12) m22)
         else (x, Finite 0, math_Atan2 m21 m11))
      else if k = EulerOrderZYX then
        (let y = math_Asin (float64_neg (Clamp m31 (Finite (- 1)) (Finite 1))) in
         if float64_lt (math_Abs m31) epsilon
         then (math_Atan2 m32 m33, y, math_Atan2 m21 m11)
         else (Finite 0, y, math_Atan2 (float64_neg m12) m22))
      else if k = EulerOrderYZX then
        (let z = math_Asin (Clamp m21 (Finite (- 1)) (Finite 1)) in
         if float64_lt (math_Abs m21) epsilon
         then (math_Atan2 (float64_neg m23) m22, math_Atan2 (float64_neg m31) m11, z)
         else (Finite 0, math_Atan2 m13 m33, z))
      else if k = EulerOrderXZY then
        (let z = math_Asin (float64_neg (Clamp m12 (Finite (- 1)) (Finite 1))) in
         if float64_lt (math_Abs m12) epsilon
         then (math_Atan2 m32 m22, math_Atan2 m13 m11, z)
         else (math_Atan2 (float64_neg m23) m33, Finite 0, z))
      else
        (let y = math_Asin (Clamp m13 (Finite (- 1)) (Finite 1)) in
         if float64_lt (math_Abs m13) epsilon
         then (math_Atan2 (float64_neg m23) m33, y, math_Atan2 (float64_neg m12) m11)
         else (math_Atan2 m32 m22, y, Finite 0)))"

text \<open>
  \<^verbatim>\<open>SetFromRotationMatrix\<close>: the \<^verbatim>\<open>switch\<close> inspects \<^verbatim>\<open>e.Order\<close> (line 112); the
  parameter \<^verbatim>\<open>order\<close> is used once, in the final call of \<^verbatim>\<open>Set\<close> (line 171).
\<close>

definition SetFromRotationMatrix :: "'w Euler \<Rightarrow> Matrix4 \<Rightarrow> int \<Rightarrow> 'w \<Rightarrow> 'w outcome" where
  "SetFromRotationMatrix e m4 order w =
     (case rotationAngles (Order e) (Values m4) of
        (x, y, z) \<Rightarrow> Set e x y z order w)"

text \<open>
  \<^verbatim>\<open>SetFromQuaternion\<close>: the matrix made by \<^verbatim>\<open>NewMatrix4(nil)\<close> and the method
  \<^verbatim>\<open>FromQuaternion\<close> that fills it belong to other files of the package; they are the
  first two parameters.
\<close>

definition SetFromQuaternion ::
  "Matrix4 \<Rightarrow> (Matrix4 \<Rightarrow> 'q \<Rightarrow> Matrix4) \<Rightarrow> 'w Euler \<Rightarrow> 'q \<Rightarrow> int \<Rightarrow> 'w \<Rightarrow> 'w outcome" where
  "SetFromQuaternion NewMatrix4_nil FromQuaternion e q order w =
     (let tmpMat4 = FromQuaternion NewMatrix4_nil q
      in SetFromRotationMatrix e tmpMat4 order w)"

subsection \<open>Sequences of calls\<close>

text \<open>
  The mutating methods of the container as data, to speak of every call and of every
  sequence of calls. A sequence stops at the first call that panics.
\<close>

datatype ('w, 'q) call =
    CallSet float64 float64 float64 int
  | CallSetX float64
  | CallSetY float64
  | CallSetZ float64
  | CallSetOrder int
  | CallCopy "'w Euler"
  | CallSetFromQuaternion 'q int
  | CallSetFromRotationMatrix Matrix4 int

fun perform ::
  "Matrix4 \<Rightarrow> (Matrix4 \<Rightarrow> 'q \<Rightarrow> Matrix4) \<Rightarrow> 'w Euler \<Rightarrow> ('w, 'q) call \<Rightarrow> 'w \<Rightarrow> 'w outcome" where
  "perform n f e (CallSet x y z order) w = Set e x y z order w"
| "perform n f e (CallSetX v) w = SetX e v w"
| "perform n f e (CallSetY v) w = SetY e v w"
| "perform n f e (CallSetZ v) w = SetZ e v w"
| "perform n f e (CallSetOrder v) w = SetOrder e v w"
| "perform n f e (CallCopy other) w = Copy e other w"
| "perform n f e (CallSetFromQuaternion q order) w = SetFromQuaternion n f e q order w"
| "perform n f e (CallSetFromRotationMatrix m4 order) w = SetFromRotationMatrix e m4 order w"

fun perform_all ::
  "Matrix4 \<Rightarrow> (Matrix4 \<Rightarrow> 'q \<Rightarrow> Matrix4) \<Rightarrow> 'w Euler \<Rightarrow> ('w, 'q) call list \<Rightarrow> 'w \<Rightarrow> 'w outcome" where
  "perform_all n f e [] w = \<lparr>container = e, world = w, returned = Inr e\<rparr>"
| "perform_all n f e (c # cs) w =
     (let r = perform n f e c w
      in case returned r of
           Inl p \<Rightarrow> r
         | Inr _ \<Rightarrow> perform_all n f (container r) cs (world r))"

subsection \<open>The table of the specification\<close>

text \<open>
  These definitions follow the table of section 4.3 of the specification, row by row, and
  not the source; they are what the decomposition of the source is compared with. The
  entries are named as the specification names them: m11 is index 0, m12 index 4,
  m13 index 8, m21 index 1, m22 index 5, m23 index 9, m31 index 2, m32 index 6 and
  m33 index 10. A value that is none of the six orders is read as XYZ.
\<close>

text \<open>The entry that drives the \<open>asin\<close> (second column of the table).\<close>

definition spec_asin_source :: "int \<Rightarrow> (nat \<Rightarrow> float64) \<Rightarrow> float64" where
  "spec_asin_source k m =
     (if k = EulerOrderYXZ then m 9
      else if k = EulerOrderZXY then m 6
      else if k = EulerOrderZYX then m 2
      else if k = EulerOrderYZX then m 1
      else if k = EulerOrderXZY then m 4
      else m 8)"

text \<open>The rows marked "negated" in the table: YXZ, ZYX and XZY.\<close>

definition spec_asin_negated :: "int \<Rightarrow> bool" where
  "spec_asin_negated k = (k = EulerOrderYXZ \<or> k = EulerOrderZYX \<or> k = EulerOrderXZY)"

text \<open>The angle of the primary axis: \<open>asin\<close> of the clamped entry, or of its negation.\<close>

definition spec_primary :: "int \<Rightarrow> (nat \<Rightarrow> float64) \<Rightarrow> float64" where
  "spec_primary k m =
     (if spec_asin_negated k
      then math_Asin (float64_neg (Clamp (spec_asin_source k m) (Finite (- 1)) (Finite 1)))
      else math_Asin (Clamp (spec_asin_source k m) (Finite (- 1)) (Finite 1)))"

text \<open>The third column: \<open>(x, y, z)\<close> away from the singularity.\<close>

definition spec_nonsingular :: "int \<Rightarrow> (nat \<Rightarrow> float64) \<Rightarrow> float64 \<times> float64 \<times> float64" where
  "spec_nonsingular k m =
     (let m11 = m 0; m12 = m 4; m13 = m 8;
          m21 = m 1; m22 = m 5; m23 = m 9;
          m31 = m 2; m32 = m 6; m33 = m 10;
          a = spec_primary k m
      in
      if k = EulerOrderYXZ then (a, math_Atan2 m13 m33, math_Atan2 m21 m22)
      else if k = EulerOrderZXY then (a, math_Atan2 (float64_neg m31) m33, math_Atan2 (float64_neg m12) m22)
      else if k = EulerOrderZYX then (math_Atan2 m32 m33, a, math_Atan2 m21 m11)
      else if k = EulerOrderYZX then (math_Atan2 (float64_neg m23) m22, math_Atan2 (float64_neg m31) m11, a)
      else if k = EulerOrderXZY then (math_Atan2 m32 m22, math_Atan2 m13 m11, a)
      else (math_Atan2 (float64_neg m23) m33, a, math_Atan2 (float64_neg m12) m11))"

text \<open>The fourth column: \<open>(x, y, z)\<close> at the singularity.\<close>

definition spec_singular :: "int \<Rightarrow> (nat \<Rightarrow> float64) \<Rightarrow> float64 \<times> float64 \<times> float64" where
  "spec_singular k m =
     (let m11 = m 0; m12 = m 4; m13 = m 8;
          m21 = m 1; m22 = m 5; m23 = m 9;
          m31 = m 2; m32 = m 6; m33 = m 10;
          a = spec_primary k m
      in
      if k = EulerOrderYXZ then (a, math_Atan2 (float64_neg m31) m11, Finite 0)
      else if k = EulerOrderZXY then (a, Finite 0, math_Atan2 m21 m11)
      else if k = EulerOrderZYX then (Finite 0, a, math_Atan2 (float64_neg m12) m22)
      else if k = EulerOrderYZX then (Finite 0, math_Atan2 m13 m33, a)
      else if k = EulerOrderXZY then (math_Atan2 (float64_neg m23) m33, Finite 0, a)
      else (math_Atan2 m32 m22, a, Finite 0))"

text \<open>
  The axis of the second column whose angle the \<open>asin\<close> gives: x for YXZ and ZXY, z for
  YZX and XZY, y for ZYX and XYZ.
\<close>

definition spec_primary_angle :: "int \<Rightarrow> float64 \<times> float64 \<times> float64 \<Rightarrow> float64" where
  "spec_primary_angle k a =
     (case a of (x, y, z) \<Rightarrow>
        if k = EulerOrderYXZ \<or> k = EulerOrderZXY then x
        else if k = EulerOrderYZX \<or> k = EulerOrderXZY then z
        else y)"

section \<open>Properties\<close>

lemmas EulerOrder_defs =
  EulerOrderXYZ_def EulerOrderYXZ_def EulerOrderZXY_def EulerOrderZYX_def
  EulerOrderYZX_def EulerOrderXZY_def numEulerOrders_def EulerOrderDefault_def

subsection \<open>Floats\<close>

text \<open>
  On finite values and bounds in order, \<^verbatim>\<open>Clamp\<close> is the first sentence of section 4.4
  of the specification; NaN goes through it unchanged.
\<close>

lemma Clamp_finite:
  "lo \<le> hi \<Longrightarrow>
   Clamp (Finite v) (Finite lo) (Finite hi) =
     Finite (if lo \<le> v \<and> v \<le> hi then v else if v < lo then lo else hi)"
  by (auto simp: Clamp_def math_Max_def math_Min_def is_zero_def)

lemma Clamp_NaN: "Clamp NaN (Finite lo) (Finite hi) = NaN"
  by (simp add: Clamp_def math_Max_def math_Min_def)

text \<open>Away from NaN, "not less" is "greater or equal"; a NaN is neither.\<close>

lemma float64_lt_le: "a \<noteq> NaN \<Longrightarrow> b \<noteq> NaN \<Longrightarrow> float64_lt a b = (\<not> float64_le b a)"
  by (cases a; cases b) auto

lemma not_lt_Abs:
  "(\<not> float64_lt (math_Abs a) (Finite r)) = (float64_le (Finite r) (math_Abs a) \<or> a = NaN)"
  by (cases a) auto

subsection \<open>The conversion of the order and the effect of Set\<close>

lemma order_conversion:
  "int_of_float64 (Clamp (float64_of_int order) (Finite 0) (float64_of_int (numEulerOrders - 1))) =
     (if order < 0 then 0 else if 5 < order then 5 else order)"
  by (simp add: float64_of_int_def numEulerOrders_def Clamp_finite)

lemma Set_container:
  "container (Set e x y z order w) =
     e\<lparr>X := x, Y := y, Z := z, Order := (if order < 0 then 0 else if 5 < order then 5 else order)\<rparr>"
  using order_conversion [of order]
  by (simp add: Set_def Let_def split: option.splits)

lemma Set_callback:
  "OnChangeCallback (container (Set e x y z order w)) = OnChangeCallback e"
  by (simp add: Set_container)

lemma Set_world:
  "OnChangeCallback e = Some cb \<Longrightarrow>
   world (Set e x y z order w) = cb (view (container (Set e x y z order w))) w"
  by (simp add: Set_def Let_def)

lemma Set_returned:
  "OnChangeCallback e = Some cb \<Longrightarrow>
   returned (Set e x y z order w) = Inr (container (Set e x y z order w))"
  by (simp add: Set_def Let_def)

lemma Set_nil:
  "OnChangeCallback e = None \<Longrightarrow>
   returned (Set e x y z order w) = Inl NilFuncCall \<and> world (Set e x y z order w) = w"
  by (simp add: Set_def Let_def)

lemma eulerNoop_apply: "eulerNoop v w = w"
  by (simp add: eulerNoop_def)

text \<open>Every mutating method is one call of \<^verbatim>\<open>Set\<close> on the receiver.\<close>

text \<open>Every mutating method is one call of \<^verbatim>\<open>Set\<close> on the receiver.\<close>

lemma perform_is_Set:
  "\<exists>x y z order. perform n f e c w = Set e x y z order w"
proof (cases c)
  case (CallSetFromRotationMatrix m4 order)
  then show ?thesis
    by (auto simp: SetFromRotationMatrix_def split: prod.splits)
next
  case (CallSetFromQuaternion q order)
  then show ?thesis
    by (auto simp: SetFromQuaternion_def SetFromRotationMatrix_def Let_def split: prod.splits)
qed (auto simp: SetX_def SetY_def SetZ_def SetOrder_def Copy_def)

lemma perform_notifies:
  assumes "OnChangeCallback e = Some cb"
  shows "world (perform n f e c w) = cb (view (container (perform n f e c w))) w"
    and "returned (perform n f e c w) = Inr (container (perform n f e c w))"
    and "OnChangeCallback (container (perform n f e c w)) = Some cb"
proof -
  obtain x y z order where p: "perform n f e c w = Set e x y z order w"
    using perform_is_Set [of n f e c w] by auto
  show "world (perform n f e c w) = cb (view (container (perform n f e c w))) w"
    using assms by (simp add: p Set_world)
  show "returned (perform n f e c w) = Inr (container (perform n f e c w))"
    using assms by (simp add: p Set_returned)
  show "OnChangeCallback (container (perform n f e c w)) = Some cb"
    using assms by (simp add: p Set_callback)
qed

lemma perform_all_noop:
  "OnChangeCallback e = Some eulerNoop \<Longrightarrow>
   returned (perform_all n f e cs w) = Inr (container (perform_all n f e cs w)) \<and>
   world (perform_all n f e cs w) = w \<and>
   OnChangeCallback (container (perform_all n f e cs w)) = Some eulerNoop"
proof (induction cs arbitrary: e)
  case Nil
  then show ?case by simp
next
  case (Cons c cs)
  let ?r = "perform n f e c w"
  have r: "returned ?r = Inr (container ?r)" "OnChangeCallback (container ?r) = Some eulerNoop"
    using perform_notifies(2,3) [OF Cons.prems, of n f c w] by simp_all
  have w: "world ?r = w"
    using perform_notifies(1) [OF Cons.prems, of n f c w] by (simp add: eulerNoop_apply)
  show ?case
    using Cons.IH [OF r(2)] r w by (simp add: Let_def)
qed

subsection \<open>The constructor\<close>

text \<open>
  C5. The claim: \<^verbatim>\<open>NewEuler\<close> with the order argument 99 gives a container whose stored
  order is 5. The constructor copies its argument into the field \<^verbatim>\<open>Order\<close> and does not
  call \<^verbatim>\<open>Set\<close>: at \<^verbatim>\<open>NewEuler(0, 0, 0, 99)\<close> the stored order is 99.
\<close>

theorem NewEuler_keeps_order_99:
  "Order (NewEuler (Finite 0) (Finite 0) (Finite 0) 99 :: unit Euler) = 99"
  by (simp add: NewEuler_def)

text \<open>
  C10. \<^verbatim>\<open>NewEuler\<close> installs the callback \<^verbatim>\<open>eulerNoop\<close>, which is not nil and leaves
  the world as it is. From such a container every sequence of calls of the mutating methods
  runs to its end without a panic, leaves the world unchanged, and leaves \<^verbatim>\<open>eulerNoop\<close>
  installed.
\<close>

theorem NewEuler_callback_valid:
  "OnChangeCallback (NewEuler x y z order) = Some eulerNoop
   \<and> eulerNoop v w = w
   \<and> (\<forall>cs. returned (perform_all n f (NewEuler x y z order) cs w) =
              Inr (container (perform_all n f (NewEuler x y z order) cs w))
          \<and> world (perform_all n f (NewEuler x y z order) cs w) = w
          \<and> OnChangeCallback (container (perform_all n f (NewEuler x y z order) cs w)) =
              Some eulerNoop)"
  using perform_all_noop [of "NewEuler x y z order" n f _ w]
  by (simp add: NewEuler_def eulerNoop_apply)

subsection \<open>The accessors\<close>

text \<open>
  C9. \<^verbatim>\<open>XY\<close> returns the current X and Y, \<^verbatim>\<open>XYZ\<close> the current X, Y and Z; after
  either call the container is the one before the call, field by field, and the world is
  unchanged, so no callback has run.
\<close>

theorem accessors_read_only:
  "XY e w = ((X e, Y e), e, w) \<and> XYZ e w = ((X e, Y e, Z e), e, w)"
  by (simp add: XY_def XYZ_def)

subsection \<open>The setters\<close>

text \<open>
  C6. For every integer \<open>order\<close> and every container, the order stored by
  \<^verbatim>\<open>Set(x, y, z, order)\<close>, and so by \<^verbatim>\<open>SetOrder(order)\<close>, is \<open>order\<close> clamped to 0..5:
  0 below 0, 5 above 5, \<open>order\<close> itself in between. It is one of the six orders.
\<close>

theorem Set_order_clamp:
  "Order (container (Set e x y z order w)) =
     (if order < 0 then 0 else if 5 < order then 5 else order)
   \<and> Order (container (SetOrder e order w)) =
     (if order < 0 then 0 else if 5 < order then 5 else order)
   \<and> Order (container (Set e x y z order w)) \<in>
        {EulerOrderXYZ, EulerOrderYXZ, EulerOrderZXY, EulerOrderZYX, EulerOrderYZX, EulerOrderXZY}"
  by (auto simp: Set_container SetOrder_def EulerOrder_defs)

text \<open>
  C8. \<^verbatim>\<open>SetX(v)\<close> is \<^verbatim>\<open>Set(v, Y, Z, Order)\<close> with the current values of the other three
  fields, likewise \<^verbatim>\<open>SetY\<close>, \<^verbatim>\<open>SetZ\<close> and \<^verbatim>\<open>SetOrder\<close>, and \<^verbatim>\<open>Copy(other)\<close> is
  \<^verbatim>\<open>Set\<close> with the four fields of \<open>other\<close>: same container, same world, same return.
\<close>

theorem setters_go_through_Set:
  "SetX e v w = Set e v (Y e) (Z e) (Order e) w
   \<and> SetY e v w = Set e (X e) v (Z e) (Order e) w
   \<and> SetZ e v w = Set e (X e) (Y e) v (Order e) w
   \<and> SetOrder e order w = Set e (X e) (Y e) (Z e) order w
   \<and> Copy e other w = Set e (X other) (Y other) (Z other) (Order other) w"
  by (simp add: SetX_def SetY_def SetZ_def SetOrder_def Copy_def)

text \<open>
  C7, as stated, fails on a container whose callback is nil, such as the zero value
  \<^verbatim>\<open>&Euler{}\<close> of line 24: \<^verbatim>\<open>Set\<close> assigns the four fields, then the call of the nil
  function panics. No callback has run (the world is unchanged) and nothing is returned.
\<close>

theorem Set_nil_callback_panics:
  "returned (Set \<lparr>X = Finite 0, Y = Finite 0, Z = Finite 0, Order = 0, OnChangeCallback = None\<rparr>
       (Finite 1) (Finite 2) (Finite 3) 7 ([] :: (float64 \<times> float64 \<times> float64 \<times> int) list))
     = Inl NilFuncCall
   \<and> world (Set \<lparr>X = Finite 0, Y = Finite 0, Z = Finite 0, Order = 0, OnChangeCallback = None\<rparr>
       (Finite 1) (Finite 2) (Finite 3) 7 ([] :: (float64 \<times> float64 \<times> float64 \<times> int) list))
     = []
   \<and> container (Set \<lparr>X = Finite 0, Y = Finite 0, Z = Finite 0, Order = 0, OnChangeCallback = None\<rparr>
       (Finite 1) (Finite 2) (Finite 3) 7 ([] :: (float64 \<times> float64 \<times> float64 \<times> int) list))
     = \<lparr>X = Finite 1, Y = Finite 2, Z = Finite 3, Order = 5, OnChangeCallback = None\<rparr>"
  using order_conversion [of 7]
  by (simp add: Set_def Let_def)

text \<open>
  C7, amended. On a container whose callback is not nil, \<^verbatim>\<open>Set\<close> changes the world by
  one application of the callback, to the four fields as updated (the order clamped);
  this also when the arguments are the current values of the fields. \<^verbatim>\<open>Set\<close> then
  returns the container. The same holds for every mutating method: the world after the
  call is the callback applied once to the fields the container has after the call.
\<close>

theorem Set_notifies_once:
  assumes "OnChangeCallback e = Some cb"
  shows "world (Set e x y z order w) =
           cb (x, y, z, if order < 0 then 0 else if 5 < order then 5 else order) w
       \<and> world (Set e (X e) (Y e) (Z e) (Order e) w) =
           cb (X e, Y e, Z e, if Order e < 0 then 0 else if 5 < Order e then 5 else Order e) w
       \<and> returned (Set e x y z order w) = Inr (container (Set e x y z order w))
       \<and> (\<forall>c. world (perform n f e c w) = cb (view (container (perform n f e c w))) w
              \<and> returned (perform n f e c w) = Inr (container (perform n f e c w)))"
proof (intro conjI allI)
  show "world (Set e x y z order w) =
          cb (x, y, z, if order < 0 then 0 else if 5 < order then 5 else order) w"
    by (simp add: Set_world [OF assms] Set_container view_def)
  show "world (Set e (X e) (Y e) (Z e) (Order e) w) =
          cb (X e, Y e, Z e, if Order e < 0 then 0 else if 5 < Order e then 5 else Order e) w"
    by (simp add: Set_world [OF assms] Set_container view_def)
  show "returned (Set e x y z order w) = Inr (container (Set e x y z order w))"
    by (rule Set_returned [OF assms])
  show "world (perform n f e c w) = cb (view (container (perform n f e c w))) w" for c
    by (rule perform_notifies(1) [OF assms])
  show "returned (perform n f e c w) = Inr (container (perform n f e c w))" for c
    by (rule perform_notifies(2) [OF assms])
qed

text \<open>
  An observer that appends what it is handed to a log: after one call the log has one
  entry, the updated fields, also when nothing changed.
\<close>

theorem Set_notifies_once_witness:
  "world (Set \<lparr>X = Finite 0, Y = Finite 0, Z = Finite 0, Order = 0,
                OnChangeCallback = Some (\<lambda>v log. log @ [v])\<rparr>
            (Finite 1) (Finite 2) (Finite 3) 7 []) = [(Finite 1, Finite 2, Finite 3, 5)]
   \<and> world (Set \<lparr>X = Finite 0, Y = Finite 0, Z = Finite 0, Order = 0,
                OnChangeCallback = Some (\<lambda>v log. log @ [v])\<rparr>
            (Finite 0) (Finite 0) (Finite 0) 0 []) = [(Finite 0, Finite 0, Finite 0, 0)]
   \<and> world (perform \<lparr>Values = \<lambda>i. Finite 0\<rparr> (\<lambda>m (q :: unit). m)
            \<lparr>X = Finite 0, Y = Finite 0, Z = Finite 0, Order = 0,
              OnChangeCallback = Some (\<lambda>v log. log @ [v])\<rparr>
            (CallSetX (Finite 4)) []) = [(Finite 4, Finite 0, Finite 0, 0)]"
proof -
  let ?e = "\<lparr>X = Finite 0, Y = Finite 0, Z = Finite 0, Order = 0,
             OnChangeCallback = Some (\<lambda>v log. log @ [v])\<rparr>"
  let ?n = "\<lparr>Values = \<lambda>i. Finite 0\<rparr>"
  let ?f = "\<lambda>m (q :: unit). m"
  have h: "OnChangeCallback ?e = Some (\<lambda>v log. log @ [v])"
    by simp
  have a: "world (Set ?e (Finite 1) (Finite 2) (Finite 3) 7 []) = [(Finite 1, Finite 2, Finite 3, 5)]"
    using Set_notifies_once [OF h, where x = "Finite 1" and y = "Finite 2" and z = "Finite 3"
        and order = 7 and w = "[]" and n = ?n and f = ?f]
    by simp
  have b: "world (Set ?e (Finite 0) (Finite 0) (Finite 0) 0 []) = [(Finite 0, Finite 0, Finite 0, 0)]"
    using Set_notifies_once [OF h, where x = "Finite 0" and y = "Finite 0" and z = "Finite 0"
        and order = 0 and w = "[]" and n = ?n and f = ?f]
    by simp
  have "\<forall>c. world (perform ?n ?f ?e c []) = [view (container (perform ?n ?f ?e c []))]"
    using Set_notifies_once [OF h, where w = "[]" and n = ?n and f = ?f]
    by simp
  from this [THEN spec, of "CallSetX (Finite 4)"]
  have c: "world (perform ?n ?f ?e (CallSetX (Finite 4)) []) = [(Finite 4, Finite 0, Finite 0, 0)]"
    by (simp add: view_def SetX_def Set_container)
  from a b c show ?thesis
    by simp
qed

subsection \<open>The decomposition\<close>

lemma SetFromRotationMatrix_container:
  "container (SetFromRotationMatrix e m4 order w) =
     (case rotationAngles (Order e) (Values m4) of
        (x, y, z) \<Rightarrow>
          e\<lparr>X := x, Y := y, Z := z,
            Order := (if order < 0 then 0 else if 5 < order then 5 else order)\<rparr>)"
  by (simp add: SetFromRotationMatrix_def Set_container split: prod.splits)

text \<open>
  The \<^verbatim>\<open>switch\<close> of the source against the table of the specification: the
  non-singular column where the test \<^verbatim>\<open>math.Abs(entry) < epsilon\<close> succeeds, the
  singular column where it fails.
\<close>

lemma rotationAngles_table:
  "rotationAngles k m =
     (if float64_lt (math_Abs (spec_asin_source k m)) (Finite 0.99999)
      then spec_nonsingular k m else spec_singular k m)"
  by (simp add: rotationAngles_def spec_asin_source_def spec_singular_def spec_nonsingular_def
      spec_primary_def spec_asin_negated_def Let_def EulerOrder_defs)

lemma table_primary_angle:
  "spec_primary_angle k (spec_nonsingular k m) = spec_primary k m"
  "spec_primary_angle k (spec_singular k m) = spec_primary k m"
  by (simp_all add: spec_primary_angle_def spec_nonsingular_def spec_singular_def Let_def
      EulerOrder_defs)

text \<open>
  C1. \<^verbatim>\<open>SetFromRotationMatrix(m, order)\<close> computes the angles by the row of the table
  that the container's current \<^verbatim>\<open>Order\<close> selects, and stores as order the argument
  \<open>order\<close>, clamped, whatever the container's order was; the argument has no influence
  on the angles. On the matrix that sends x to y, y to z and z to x, a container of order
  YXZ called with the argument XYZ gets the angles of the YXZ row and the order XYZ; a
  container of order XYZ called with the argument YXZ gets the angles of the XYZ row and
  the order YXZ.
\<close>

theorem branch_by_container_order:
  "container (SetFromRotationMatrix e m4 order w) =
     (case (if float64_lt (math_Abs (spec_asin_source (Order e) (Values m4))) (Finite 0.99999)
            then spec_nonsingular (Order e) (Values m4)
            else spec_singular (Order e) (Values m4)) of
        (x, y, z) \<Rightarrow>
          e\<lparr>X := x, Y := y, Z := z,
            Order := (if order < 0 then 0 else if 5 < order then 5 else order)\<rparr>)
   \<and> (\<forall>order'. X (container (SetFromRotationMatrix e m4 order' w)) =
                  X (container (SetFromRotationMatrix e m4 order w))
               \<and> Y (container (SetFromRotationMatrix e m4 order' w)) =
                  Y (container (SetFromRotationMatrix e m4 order w))
               \<and> Z (container (SetFromRotationMatrix e m4 order' w)) =
                  Z (container (SetFromRotationMatrix e m4 order w)))
   \<and> view (container (SetFromRotationMatrix (NewEuler (Finite 0) (Finite 0) (Finite 0) EulerOrderYXZ :: unit Euler)
        \<lparr>Values = \<lambda>i. if i = 1 \<or> i = 6 \<or> i = 8 \<or> i = 15 then Finite 1 else Finite 0\<rparr> EulerOrderXYZ ())) =
       (NegZero, Finite (pi / 2), Finite (pi / 2), EulerOrderXYZ)
   \<and> view (container (SetFromRotationMatrix (NewEuler (Finite 0) (Finite 0) (Finite 0) EulerOrderXYZ :: unit Euler)
        \<lparr>Values = \<lambda>i. if i = 1 \<or> i = 6 \<or> i = 8 \<or> i = 15 then Finite 1 else Finite 0\<rparr> EulerOrderYXZ ())) =
       (Finite (pi / 2), Finite (pi / 2), Finite 0, EulerOrderYXZ)"
proof (intro conjI allI)
  show "container (SetFromRotationMatrix e m4 order w) =
     (case (if float64_lt (math_Abs (spec_asin_source (Order e) (Values m4))) (Finite 0.99999)
            then spec_nonsingular (Order e) (Values m4)
            else spec_singular (Order e) (Values m4)) of
        (x, y, z) \<Rightarrow>
          e\<lparr>X := x, Y := y, Z := z,
            Order := (if order < 0 then 0 else if 5 < order then 5 else order)\<rparr>)"
    by (simp only: SetFromRotationMatrix_container rotationAngles_table)
  show "X (container (SetFromRotationMatrix e m4 order' w)) =
        X (container (SetFromRotationMatrix e m4 order w))" for order'
    by (simp add: SetFromRotationMatrix_container split: prod.splits)
  show "Y (container (SetFromRotationMatrix e m4 order' w)) =
        Y (container (SetFromRotationMatrix e m4 order w))" for order'
    by (simp add: SetFromRotationMatrix_container split: prod.splits)
  show "Z (container (SetFromRotationMatrix e m4 order' w)) =
        Z (container (SetFromRotationMatrix e m4 order w))" for order'
    by (simp add: SetFromRotationMatrix_container split: prod.splits)
  show "view (container (SetFromRotationMatrix (NewEuler (Finite 0) (Finite 0) (Finite 0) EulerOrderYXZ :: unit Euler)
        \<lparr>Values = \<lambda>i. if i = 1 \<or> i = 6 \<or> i = 8 \<or> i = 15 then Finite 1 else Finite 0\<rparr> EulerOrderXYZ ())) =
       (NegZero, Finite (pi / 2), Finite (pi / 2), EulerOrderXYZ)"
    by (simp add: view_def SetFromRotationMatrix_container rotationAngles_def NewEuler_def
        EulerOrder_defs Let_def Clamp_finite math_Atan2_def math_Copysign_def is_zero_def)
  show "view (container (SetFromRotationMatrix (NewEuler (Finite 0) (Finite 0) (Finite 0) EulerOrderXYZ :: unit Euler)
        \<lparr>Values = \<lambda>i. if i = 1 \<or> i = 6 \<or> i = 8 \<or> i = 15 then Finite 1 else Finite 0\<rparr> EulerOrderYXZ ())) =
       (Finite (pi / 2), Finite (pi / 2), Finite 0, EulerOrderYXZ)"
    by (simp add: view_def SetFromRotationMatrix_container rotationAngles_def NewEuler_def
        EulerOrder_defs Let_def Clamp_finite math_Atan2_def math_Copysign_def is_zero_def)
qed

text \<open>
  C2. When the container's order is none of YXZ, ZXY, ZYX, YZX, XZY (so it is XYZ or not
  an order at all), \<open>y = asin(clamp(m[8], -1, 1))\<close>; away from the singularity
  \<open>x = atan2(-m[9], m[10])\<close> and \<open>z = atan2(-m[4], m[0])\<close>; at the singularity
  \<open>x = atan2(m[6], m[5])\<close> and \<open>z = 0\<close>.
\<close>

theorem XYZ_branch:
  assumes "Order e \<notin> {EulerOrderYXZ, EulerOrderZXY, EulerOrderZYX, EulerOrderYZX, EulerOrderXZY}"
  shows "(let m = Values m4; r = container (SetFromRotationMatrix e m4 order w)
          in Y r = math_Asin (Clamp (m 8) (Finite (- 1)) (Finite 1))
           \<and> X r = (if float64_lt (math_Abs (m 8)) (Finite 0.99999)
                    then math_Atan2 (float64_neg (m 9)) (m 10)
                    else math_Atan2 (m 6) (m 5))
           \<and> Z r = (if float64_lt (math_Abs (m 8)) (Finite 0.99999)
                    then math_Atan2 (float64_neg (m 4)) (m 0)
                    else Finite 0))"
  using assms
  by (simp add: SetFromRotationMatrix_container rotationAngles_def Let_def)

text \<open>
  The identity matrix under the order XYZ, and a quarter turn about the Y axis (m13 = 1)
  under the order 99, which is no order. On the identity x and z are negative zeros:
  they are \<open>atan2(-m23, m33)\<close> and \<open>atan2(-m12, m11)\<close> with m23 and m12 positive zeros.
\<close>

theorem XYZ_branch_witness:
  "view (container (SetFromRotationMatrix (NewEuler (Finite 0) (Finite 0) (Finite 0) 0 :: unit Euler)
        \<lparr>Values = \<lambda>i. if i = 0 \<or> i = 5 \<or> i = 10 \<or> i = 15 then Finite 1 else Finite 0\<rparr> 3 ())) = (NegZero, Finite 0, NegZero, 3)
   \<and> view (container (SetFromRotationMatrix (NewEuler (Finite 0) (Finite 0) (Finite 0) 99 :: unit Euler)
        \<lparr>Values = \<lambda>i. if i = 5 \<or> i = 8 \<or> i = 15 then Finite 1 else if i = 2 then Finite (- 1) else Finite 0\<rparr> 0 ())) = (Finite 0, Finite (pi / 2), Finite 0, 0)"
proof -
  have h0: "Order (NewEuler (Finite 0) (Finite 0) (Finite 0) 0 :: unit Euler) \<notin>
      {EulerOrderYXZ, EulerOrderZXY, EulerOrderZYX, EulerOrderYZX, EulerOrderXZY}"
    by (simp add: NewEuler_def EulerOrder_defs)
  have h99: "Order (NewEuler (Finite 0) (Finite 0) (Finite 0) 99 :: unit Euler) \<notin>
      {EulerOrderYXZ, EulerOrderZXY, EulerOrderZYX, EulerOrderYZX, EulerOrderXZY}"
    by (simp add: NewEuler_def EulerOrder_defs)
  have o: "Order (container (SetFromRotationMatrix (NewEuler (Finite 0) (Finite 0) (Finite 0) 0 :: unit Euler)
        \<lparr>Values = \<lambda>i. if i = 0 \<or> i = 5 \<or> i = 10 \<or> i = 15 then Finite 1 else Finite 0\<rparr> 3 ())) = 3"
    "Order (container (SetFromRotationMatrix (NewEuler (Finite 0) (Finite 0) (Finite 0) 99 :: unit Euler)
        \<lparr>Values = \<lambda>i. if i = 5 \<or> i = 8 \<or> i = 15 then Finite 1 else if i = 2 then Finite (- 1) else Finite 0\<rparr> 0 ())) = 0"
    by (simp_all add: SetFromRotationMatrix_container split: prod.splits)
  show ?thesis
    using o XYZ_branch [OF h0, where order = 3 and w = "()"
        and ?m4.0 = "\<lparr>Values = \<lambda>i. if i = 0 \<or> i = 5 \<or> i = 10 \<or> i = 15 then Finite 1 else Finite 0\<rparr>"]
      XYZ_branch [OF h99, where order = 0 and w = "()"
        and ?m4.0 = "\<lparr>Values = \<lambda>i. if i = 5 \<or> i = 8 \<or> i = 15 then Finite 1 else if i = 2 then Finite (- 1) else Finite 0\<rparr>"]
    by (simp add: view_def Let_def Clamp_finite math_Atan2_def math_Copysign_def is_zero_def)
qed

text \<open>
  C3, as stated, fails on an entry that is NaN: the test \<^verbatim>\<open>math.Abs(m13) < epsilon\<close>
  is false, so the singular branch runs, and the absolute value of the entry is not at
  least 0.99999 either. Here m13 is NaN and m32 is 1 under the order XYZ: x is
  \<open>atan2(m32, m22)\<close>, a quarter turn, and z is 0, as in the singular column, where the
  non-singular column has two negative zeros.
\<close>

theorem singular_threshold_NaN:
  "spec_asin_source EulerOrderXYZ (Values \<lparr>Values = \<lambda>i. if i = 8 then NaN else if i = 6 then Finite 1 else Finite 0\<rparr>) = NaN
   \<and> \<not> float64_le (Finite 0.99999)
         (math_Abs (spec_asin_source EulerOrderXYZ (Values \<lparr>Values = \<lambda>i. if i = 8 then NaN else if i = 6 then Finite 1 else Finite 0\<rparr>)))
   \<and> view (container (SetFromRotationMatrix (NewEuler (Finite 0) (Finite 0) (Finite 0) EulerOrderXYZ :: unit Euler)
        \<lparr>Values = \<lambda>i. if i = 8 then NaN else if i = 6 then Finite 1 else Finite 0\<rparr> EulerOrderXYZ ())) =
       (Finite (pi / 2), NaN, Finite 0, EulerOrderXYZ)
   \<and> spec_singular EulerOrderXYZ (Values \<lparr>Values = \<lambda>i. if i = 8 then NaN else if i = 6 then Finite 1 else Finite 0\<rparr>) =
       (Finite (pi / 2), NaN, Finite 0)
   \<and> spec_nonsingular EulerOrderXYZ (Values \<lparr>Values = \<lambda>i. if i = 8 then NaN else if i = 6 then Finite 1 else Finite 0\<rparr>) =
       (NegZero, NaN, NegZero)"
  by (simp add: view_def SetFromRotationMatrix_container rotationAngles_def NewEuler_def
      spec_asin_source_def spec_singular_def spec_nonsingular_def spec_primary_def
      spec_asin_negated_def
      EulerOrder_defs Let_def Clamp_NaN math_Atan2_def math_Copysign_def is_zero_def)

text \<open>
  C3, amended. Whatever the container's order, the angles are those of the non-singular
  column of the table if and only if the absolute value of the entry that drives the
  \<open>asin\<close> is less than 0.99999, and those of the singular column otherwise: when that
  absolute value is at least 0.99999, or the entry is NaN. The argument of the \<open>asin\<close>
  is what \<^verbatim>\<open>Clamp(entry, -1, 1)\<close> returns, negated for YXZ, ZYX and XZY.
\<close>

theorem singular_threshold:
  "(let m = Values m4; k = Order e; a = spec_asin_source k m;
        r = container (SetFromRotationMatrix e m4 order w)
    in (X r, Y r, Z r) =
         (if float64_lt (math_Abs a) (Finite 0.99999) then spec_nonsingular k m
          else spec_singular k m)
     \<and> (X r, Y r, Z r) =
         (if float64_le (Finite 0.99999) (math_Abs a) \<or> a = NaN then spec_singular k m
          else spec_nonsingular k m)
     \<and> spec_primary_angle k (X r, Y r, Z r) =
         (if spec_asin_negated k
          then math_Asin (float64_neg (Clamp a (Finite (- 1)) (Finite 1)))
          else math_Asin (Clamp a (Finite (- 1)) (Finite 1))))"
proof -
  let ?m = "Values m4" and ?k = "Order e"
  let ?r = "container (SetFromRotationMatrix e m4 order w)"
  let ?a = "spec_asin_source ?k ?m"
  have t: "(X ?r, Y ?r, Z ?r) =
      (if float64_lt (math_Abs ?a) (Finite 0.99999) then spec_nonsingular ?k ?m
       else spec_singular ?k ?m)"
    by (simp add: SetFromRotationMatrix_container rotationAngles_table split: prod.splits)
  have u: "(X ?r, Y ?r, Z ?r) =
      (if float64_le (Finite 0.99999) (math_Abs ?a) \<or> ?a = NaN then spec_singular ?k ?m
       else spec_nonsingular ?k ?m)"
    using not_lt_Abs [of ?a "0.99999"] by (simp only: t) auto
  have p: "spec_primary_angle ?k (X ?r, Y ?r, Z ?r) = spec_primary ?k ?m"
    by (simp add: t table_primary_angle)
  show ?thesis
    using t u p by (simp add: Let_def spec_primary_def)
qed

text \<open>
  C4. When the container's order is YXZ, \<open>x = asin(-clamp(m[9], -1, 1))\<close>; away from the
  singularity \<open>y = atan2(m[8], m[10])\<close> and \<open>z = atan2(m[1], m[5])\<close>; at the singularity
  \<open>y = atan2(-m[2], m[0])\<close> and \<open>z = 0\<close>.
\<close>

theorem YXZ_branch:
  assumes "Order e = EulerOrderYXZ"
  shows "(let m = Values m4; r = container (SetFromRotationMatrix e m4 order w)
          in X r = math_Asin (float64_neg (Clamp (m 9) (Finite (- 1)) (Finite 1)))
           \<and> Y r = (if float64_lt (math_Abs (m 9)) (Finite 0.99999)
                    then math_Atan2 (m 8) (m 10)
                    else math_Atan2 (float64_neg (m 2)) (m 0))
           \<and> Z r = (if float64_lt (math_Abs (m 9)) (Finite 0.99999)
                    then math_Atan2 (m 1) (m 5)
                    else Finite 0))"
  using assms
  by (simp add: SetFromRotationMatrix_container rotationAngles_def Let_def)

text \<open>The identity matrix, and a quarter turn about the X axis (m23 = -1), under YXZ.\<close>

theorem YXZ_branch_witness:
  "view (container (SetFromRotationMatrix (NewEuler (Finite 0) (Finite 0) (Finite 0) 1 :: unit Euler)
        \<lparr>Values = \<lambda>i. if i = 0 \<or> i = 5 \<or> i = 10 \<or> i = 15 then Finite 1 else Finite 0\<rparr> 0 ())) = (NegZero, Finite 0, Finite 0, 0)
   \<and> view (container (SetFromRotationMatrix (NewEuler (Finite 0) (Finite 0) (Finite 0) 1 :: unit Euler)
        \<lparr>Values = \<lambda>i. if i = 0 \<or> i = 6 \<or> i = 15 then Finite 1 else if i = 9 then Finite (- 1) else Finite 0\<rparr> 0 ())) = (Finite (pi / 2), NegZero, Finite 0, 0)"
proof -
  have h: "Order (NewEuler (Finite 0) (Finite 0) (Finite 0) 1 :: unit Euler) = EulerOrderYXZ"
    by (simp add: NewEuler_def EulerOrder_defs)
  have o: "Order (container (SetFromRotationMatrix (NewEuler (Finite 0) (Finite 0) (Finite 0) 1 :: unit Euler)
        \<lparr>Values = \<lambda>i. if i = 0 \<or> i = 5 \<or> i = 10 \<or> i = 15 then Finite 1 else Finite 0\<rparr> 0 ())) = 0"
    "Order (container (SetFromRotationMatrix (NewEuler (Finite 0) (Finite 0) (Finite 0) 1 :: unit Euler)
        \<lparr>Values = \<lambda>i. if i = 0 \<or> i = 6 \<or> i = 15 then Finite 1 else if i = 9 then Finite (- 1) else Finite 0\<rparr> 0 ())) = 0"
    by (simp_all add: SetFromRotationMatrix_container split: prod.splits)
  show ?thesis
    using o YXZ_branch [OF h, where order = 0 and w = "()"
        and ?m4.0 = "\<lparr>Values = \<lambda>i. if i = 0 \<or> i = 5 \<or> i = 10 \<or> i = 15 then Finite 1 else Finite 0\<rparr>"]
      YXZ_branch [OF h, where order = 0 and w = "()"
        and ?m4.0 = "\<lparr>Values = \<lambda>i. if i = 0 \<or> i = 6 \<or> i = 15 then Finite 1 else if i = 9 then Finite (- 1) else Finite 0\<rparr>"]
    by (simp add: view_def Let_def Clamp_finite math_Atan2_def math_Copysign_def is_zero_def)
qed

end
